theory Spec2Isabelle
  imports Main "HOL-Library.Sublist" "HOL-Library.AList"
begin

section \<open>JavaScript values, errors and the data directory\<close>

text \<open>
  The server keeps all of its state in four JSON files under the folder \<^verbatim>\<open>dados\<close>. The values
  it reads from them (and from request bodies) are JSON values. Numbers are restricted to
  integers; \<open>None\<close> of type \<open>jsval\<close> is JavaScript's \<^verbatim>\<open>undefined\<close>. Strings are byte strings:
  the accented letters of the source's literals are written as their UTF-8 bytes.
\<close>

datatype json =
    JNull
  | JBool bool
  | JNum int
  | JStr string
  | JArr "json list"
  | JObj "(string \<times> json) list"

type_synonym jsval = "json option"

datatype error =
    Error string
  | SyntaxError string
  | TypeError string
  | RangeError string

fun message :: "error \<Rightarrow> string" where
  "message (Error m) = m"
| "message (SyntaxError m) = m"
| "message (TypeError m) = m"
| "message (RangeError m) = m"

text \<open>Sequencing of steps that may throw: the first error ends the computation.\<close>

definition and_then :: "error + 'a \<Rightarrow> ('a \<Rightarrow> error + 'b) \<Rightarrow> error + 'b" where
  "and_then r f = (case r of Inl e \<Rightarrow> Inl e | Inr x \<Rightarrow> f x)"

text \<open>Truthiness of a value, as \<^verbatim>\<open>!v\<close>, \<^verbatim>\<open>a || b\<close> and \<^verbatim>\<open>if (v)\<close> test it.\<close>

fun truthy :: "jsval \<Rightarrow> bool" where
  "truthy None = False"
| "truthy (Some JNull) = False"
| "truthy (Some (JBool b)) = b"
| "truthy (Some (JNum n)) = (n \<noteq> 0)"
| "truthy (Some (JStr s)) = (s \<noteq> [])"
| "truthy (Some (JArr xs)) = True"
| "truthy (Some (JObj kv)) = True"

definition js_or :: "jsval \<Rightarrow> jsval \<Rightarrow> jsval" where
  "js_or a b = (if truthy a then a else b)"

text \<open>
  Property read \<^verbatim>\<open>v.k\<close>. Reading a property of \<^verbatim>\<open>undefined\<close> or \<^verbatim>\<open>null\<close> throws a TypeError;
  an object yields its own property; the other values (primitives and arrays) have none of the
  property names this program reads.
\<close>

definition cannot_read :: "string \<Rightarrow> string \<Rightarrow> error" where
  "cannot_read what k =
     TypeError (''Cannot read properties of '' @ what @ '' (reading '' @ [CHR 0x27] @ k @ [CHR 0x27] @ '')'')"

fun get_prop :: "jsval \<Rightarrow> string \<Rightarrow> error + jsval" where
  "get_prop None k = Inl (cannot_read ''undefined'' k)"
| "get_prop (Some JNull) k = Inl (cannot_read ''null'' k)"
| "get_prop (Some (JObj kv)) k = Inr (map_of kv k)"
| "get_prop (Some v) k = Inr None"

text \<open>
  Own enumerable properties copied by object spread \<^verbatim>\<open>{...v}\<close>: those of an object, the
  indexed elements of an array, the indexed characters of a string, and nothing for the rest.
\<close>

function show_nat :: "nat \<Rightarrow> string" where
  "show_nat n =
     (if n < 10 then [char_of (48 + n)] else show_nat (n div 10) @ [char_of (48 + n mod 10)])"
  by pat_completeness auto
termination
  by (relation "measure id") auto

function show_digits :: "int \<Rightarrow> string" where
  "show_digits i =
     (if i < 10 then [char_of (48 + i)] else show_digits (i div 10) @ [char_of (48 + i mod 10)])"
  by pat_completeness auto
termination
  by (relation "measure nat") auto

definition show_int :: "int \<Rightarrow> string" where
  "show_int i = (if i < 0 then CHR ''-'' # show_digits (- i) else show_digits i)"

definition indexed :: "json list \<Rightarrow> (string \<times> json) list" where
  "indexed xs = zip (map show_nat [0..<length xs]) xs"

fun own_props :: "json \<Rightarrow> (string \<times> json) list" where
  "own_props (JObj kv) = kv"
| "own_props (JArr xs) = indexed xs"
| "own_props (JStr s) = indexed (map (\<lambda>c. JStr [c]) s)"
| "own_props v = []"

text \<open>
  \<^verbatim>\<open>{ ...a, ...b }\<close>: the properties of \<open>a\<close>, then those of \<open>b\<close> assigned over them in order
  (an existing key keeps its place and takes the new value, a new key is appended).
\<close>

definition assign_props :: "(string \<times> json) list \<Rightarrow> (string \<times> json) list \<Rightarrow> (string \<times> json) list" where
  "assign_props target src = fold (\<lambda>(k, v) acc. AList.update k v acc) src target"

definition spread2 :: "json \<Rightarrow> json \<Rightarrow> json" where
  "spread2 a b = JObj (assign_props (assign_props [] (own_props a)) (own_props b))"

subsection \<open>The file system\<close>

type_synonym filesystem = "string \<rightharpoonup> string"

definition path_join :: "string \<Rightarrow> string \<Rightarrow> string" where
  "path_join dir name = dir @ ''/'' @ name"

definition DATA_FOLDER :: string where
  "DATA_FOLDER = ''dados''"

definition CREDENTIALS_PATH :: string where
  "CREDENTIALS_PATH = path_join DATA_FOLDER ''credentials.json''"

definition TOKEN_PATH :: string where
  "TOKEN_PATH = path_join DATA_FOLDER ''token.json''"

definition DB_PATH :: string where
  "DB_PATH = path_join DATA_FOLDER ''pacientes.json''"

definition SETTINGS_PATH :: string where
  "SETTINGS_PATH = path_join DATA_FOLDER ''settings.json''"

definition existsSync :: "filesystem \<Rightarrow> string \<Rightarrow> bool" where
  "existsSync fs p = (fs p \<noteq> None)"

definition readFileSync :: "filesystem \<Rightarrow> string \<Rightarrow> error + string" where
  "readFileSync fs p =
     (case fs p of
        None \<Rightarrow> Inl (Error (''ENOENT: no such file or directory, open '' @ p))
      | Some content \<Rightarrow> Inr content)"

definition writeFileSync :: "filesystem \<Rightarrow> string \<Rightarrow> string \<Rightarrow> filesystem" where
  "writeFileSync fs p content = fs(p \<mapsto> content)"

definition unlinkSync :: "filesystem \<Rightarrow> string \<Rightarrow> filesystem" where
  "unlinkSync fs p = fs(p := None)"

text \<open>\<^verbatim>\<open>String.prototype.trim\<close> on the ASCII white space and line terminators.\<close>

definition is_space :: "char \<Rightarrow> bool" where
  "is_space c = (c \<in> set [CHR 0x09, CHR 0x0A, CHR 0x0B, CHR 0x0C, CHR 0x0D, CHR 0x20])"

definition trim :: "string \<Rightarrow> string" where
  "trim s = rev (dropWhile is_space (rev (dropWhile is_space s)))"


section \<open>Libraries and the environment\<close>

text \<open>
  The program calls the language's JSON and Date built-ins, google-libphonenumber and the
  calendar provider's client. Their behaviour is not part of the repository, so the program's
  functions take it as the parameter \<open>L\<close>, one field for each library function called.
\<close>

record PhoneNumber =
  country_code :: nat
  national_number :: string
  raw_input :: string

datatype PhoneNumberFormat = E164 | INTERNATIONAL | NATIONAL | RFC3966

record OAuth2Client =
  client_id :: jsval
  client_secret :: jsval
  redirect_uri :: string
  credentials :: jsval

text \<open>
  The request sent to \<^verbatim>\<open>calendar.events.list\<close>. \<open>timeMin\<close> and \<open>timeMax\<close> hold the time values
  (milliseconds since the epoch, UTC) that \<^verbatim>\<open>toISOString\<close> renders.
\<close>

record events_query =
  calendarId :: string
  timeMin :: int
  timeMax :: int
  singleEvents :: bool
  orderBy :: string

record lib =
  JSON_parse :: "string \<Rightarrow> error + json"
  JSON_stringify :: "json \<Rightarrow> nat \<Rightarrow> string"
  ToNumber :: "json \<Rightarrow> int option"
  parseAndKeepRawInput :: "string \<Rightarrow> string \<Rightarrow> error + PhoneNumber"
  isValidNumber :: "PhoneNumber \<Rightarrow> bool"
  format :: "PhoneNumber \<Rightarrow> PhoneNumberFormat \<Rightarrow> string"
  LocalTime :: "int \<Rightarrow> int"
  UTC :: "int \<Rightarrow> int"
  toLocaleDateString :: "jsval \<Rightarrow> string"
  toLocaleTimeString :: "jsval \<Rightarrow> string"
  events_list :: "OAuth2Client \<Rightarrow> events_query \<Rightarrow> error + jsval"

text \<open>
  \<open>JSON_stringify L v n\<close> is \<^verbatim>\<open>JSON.stringify(v, null, n)\<close>; \<open>JSON_parse\<close> returns the error
  it throws. \<open>ToNumber\<close> is the numeric coercion of strings, arrays and objects (\<open>None\<close> is NaN).
  \<open>toLocaleDateString L v\<close> and \<open>toLocaleTimeString L v\<close> are the pt-BR two-digit renderings of
  \<^verbatim>\<open>new Date(v)\<close>. \<open>events_list L auth q\<close> is the provider's answer \<^verbatim>\<open>res.data.items\<close>, or the
  error the call fails with.
\<close>

subsection \<open>Dates\<close>

text \<open>
  A Date object is its time value; \<open>None\<close> is the invalid date. The setters work on the local
  time \<open>LocalTime L t\<close>, convert back with \<open>UTC L\<close> and clip the result, as ECMAScript defines
  them: a time value more than 8.64e15 milliseconds from the epoch makes the date invalid.
  \<^verbatim>\<open>d.setDate(d.getDate() + k)\<close> keeps the time within the day and moves the local day number
  by \<open>k\<close> (MakeDay carries a day of the month that is out of range into the next months).
\<close>

definition msPerDay :: int where
  "msPerDay = 86400000"

definition Day :: "int \<Rightarrow> int" where
  "Day t = t div msPerDay"

definition TimeWithinDay :: "int \<Rightarrow> int" where
  "TimeWithinDay t = t mod msPerDay"

definition MakeTime :: "int \<Rightarrow> int \<Rightarrow> int \<Rightarrow> int \<Rightarrow> int" where
  "MakeTime h m s ms = h * 3600000 + m * 60000 + s * 1000 + ms"

definition MakeDate :: "int \<Rightarrow> int \<Rightarrow> int" where
  "MakeDate day time = day * msPerDay + time"

definition maxTimeValue :: int where
  "maxTimeValue = 8640000000000000"

definition TimeClip :: "int \<Rightarrow> int option" where
  "TimeClip t = (if abs t \<le> maxTimeValue then Some t else None)"

definition setDate_plus :: "lib \<Rightarrow> int option \<Rightarrow> int option \<Rightarrow> int option" where
  "setDate_plus L d k =
     (case (d, k) of
        (Some tv, Some n) \<Rightarrow>
          TimeClip (UTC L (MakeDate (Day (LocalTime L tv) + n) (TimeWithinDay (LocalTime L tv))))
      | _ \<Rightarrow> None)"

definition setHours :: "lib \<Rightarrow> int option \<Rightarrow> int \<Rightarrow> int \<Rightarrow> int \<Rightarrow> int \<Rightarrow> int option" where
  "setHours L d h m s ms =
     (case d of
        Some tv \<Rightarrow> TimeClip (UTC L (MakeDate (Day (LocalTime L tv)) (MakeTime h m s ms)))
      | None \<Rightarrow> None)"

definition toISOString :: "int option \<Rightarrow> error + int" where
  "toISOString d = (case d of Some tv \<Rightarrow> Inr tv | None \<Rightarrow> Inl (RangeError ''Invalid time value''))"

text \<open>The operand of a subtraction, \<^verbatim>\<open>v - 1\<close>, as a number.\<close>

definition to_number :: "lib \<Rightarrow> json \<Rightarrow> int option" where
  "to_number L v =
     (case v of
        JNum n \<Rightarrow> Some n
      | JBool b \<Rightarrow> Some (if b then 1 else 0)
      | JNull \<Rightarrow> Some 0
      | _ \<Rightarrow> ToNumber L v)"

text \<open>\<^verbatim>\<open>a || b\<close> with a defined right operand.\<close>

definition or_else :: "jsval \<Rightarrow> json \<Rightarrow> json" where
  "or_else a b = (case a of Some v \<Rightarrow> if truthy a then v else b | None \<Rightarrow> b)"

text \<open>\<^verbatim>\<open>s.includes(t)\<close>\<close>

definition str_includes :: "string \<Rightarrow> string \<Rightarrow> bool" where
  "str_includes s t = sublist t s"

section \<open>Settings store\<close>

definition defaultSettings :: json where
  "defaultSettings =
     JObj [(''diasEscopo'', JNum 1), (''senhaAdmin'', JStr ''admin''), (''ocultarIgnorados'', JBool True)]"

text \<open>The body of the \<^verbatim>\<open>try\<close> block of \<^verbatim>\<open>getSettings\<close>: the value returned or the error thrown.\<close>

definition getSettings_try :: "lib \<Rightarrow> filesystem \<Rightarrow> error + json" where
  "getSettings_try L fs =
     (if existsSync fs SETTINGS_PATH then
        (case readFileSync fs SETTINGS_PATH of
           Inl e \<Rightarrow> Inl e
         | Inr content \<Rightarrow>
             if trim content = [] then Inl (Error ''Arquivo vazio'')
             else JSON_parse L content)
      else Inl (Error (''Arquivo n'' @ [CHR 0xC3, CHR 0xA3] @ ''o existe'')))"

definition getSettings :: "lib \<Rightarrow> filesystem \<Rightarrow> json \<times> filesystem" where
  "getSettings L fs =
     (case getSettings_try L fs of
        Inr settings \<Rightarrow> (settings, fs)
      | Inl e \<Rightarrow>
          (defaultSettings, writeFileSync fs SETTINGS_PATH (JSON_stringify L defaultSettings 2)))"

definition saveSettings :: "lib \<Rightarrow> json \<Rightarrow> filesystem \<Rightarrow> filesystem" where
  "saveSettings L newSettings fs =
     (let (current, fs1) = getSettings L fs;
          updated = spread2 current newSettings
      in writeFileSync fs1 SETTINGS_PATH (JSON_stringify L updated 2))"

section \<open>Phone normalizer\<close>

text \<open>\<^verbatim>\<open>s.replace('+', '')\<close> removes the first plus sign of \<open>s\<close>.\<close>

definition prepararNumero :: "lib \<Rightarrow> string \<Rightarrow> string option" where
  "prepararNumero L numeroBruto =
     (case parseAndKeepRawInput L numeroBruto ''BR'' of
        Inl e \<Rightarrow> None
      | Inr numeroParseado \<Rightarrow>
          if \<not> isValidNumber L numeroParseado then None
          else Some (remove1 CHR ''+'' (format L numeroParseado E164)))"

section \<open>Credential and token manager (web flow)\<close>

definition redirectUri :: string where
  "redirectUri = ''https://consultoriobw.com.br/agenda/oauth2callback''"

definition getOAuthClient :: "lib \<Rightarrow> filesystem \<Rightarrow> error + OAuth2Client" where
  "getOAuthClient L fs =
     (if \<not> existsSync fs CREDENTIALS_PATH then Inl (Error ''CREDENTIALS_MISSING'')
      else
        and_then (readFileSync fs CREDENTIALS_PATH) (\<lambda>content.
        and_then (JSON_parse L content) (\<lambda>keys.
        and_then (get_prop (Some keys) ''web'') (\<lambda>web.
        and_then (if truthy web then Inr web else get_prop (Some keys) ''installed'') (\<lambda>key.
        and_then (get_prop key ''client_id'') (\<lambda>cid.
        and_then (get_prop key ''client_secret'') (\<lambda>csecret.
          Inr \<lparr>client_id = cid, client_secret = csecret, redirect_uri = redirectUri,
               credentials = Some (JObj [])\<rparr>)))))))"

text \<open>The \<^verbatim>\<open>try\<close> block of \<^verbatim>\<open>carregarAuth\<close>, entered when the token file exists.\<close>

definition carregarAuth_try :: "lib \<Rightarrow> filesystem \<Rightarrow> error + OAuth2Client" where
  "carregarAuth_try L fs =
     and_then (getOAuthClient L fs) (\<lambda>client.
     and_then (readFileSync fs TOKEN_PATH) (\<lambda>content.
     and_then (JSON_parse L content) (\<lambda>token.
       Inr (client\<lparr>credentials := Some token\<rparr>))))"

definition carregarAuth :: "lib \<Rightarrow> filesystem \<Rightarrow> error + OAuth2Client" where
  "carregarAuth L fs =
     (if existsSync fs TOKEN_PATH then
        (case carregarAuth_try L fs of
           Inr client \<Rightarrow> Inr client
         | Inl e \<Rightarrow> Inl (Error ''AUTH_REQUIRED''))
      else Inl (Error ''AUTH_REQUIRED''))"

section \<open>Event lister\<close>

definition SemTitulo :: string where
  "SemTitulo = ''Sem T'' @ [CHR 0xC3, CHR 0xAD] @ ''tulo''"

definition as_sep :: string where
  "as_sep = '' '' @ [CHR 0xC3, CHR 0xA0] @ ''s ''"

text \<open>The arrow function mapped over \<^verbatim>\<open>eventosBrutos\<close>.\<close>

definition mapEvento :: "lib \<Rightarrow> json \<Rightarrow> error + json" where
  "mapEvento L evento =
     and_then (get_prop (Some evento) ''start'') (\<lambda>start.
     and_then (get_prop start ''dateTime'') (\<lambda>dateTime.
     and_then (if truthy dateTime then Inr dateTime else get_prop start ''date'') (\<lambda>dataObj.
     and_then (get_prop (Some evento) ''summary'') (\<lambda>summary.
       Inr (JObj [(''titulo'', or_else summary (JStr SemTitulo)),
                  (''data'', JStr (toLocaleDateString L dataObj @ as_sep @ toLocaleTimeString L dataObj))])))))"

fun map_throwing :: "('a \<Rightarrow> error + 'b) \<Rightarrow> 'a list \<Rightarrow> error + 'b list" where
  "map_throwing f [] = Inr []"
| "map_throwing f (x # xs) =
     (case f x of
        Inl e \<Rightarrow> Inl e
      | Inr y \<Rightarrow> (case map_throwing f xs of Inl e \<Rightarrow> Inl e | Inr ys \<Rightarrow> Inr (y # ys)))"

text \<open>
  The tail of \<^verbatim>\<open>listarEventos\<close>, from \<^verbatim>\<open>res.data.items || []\<close> on: the provider's events
  mapped in order. Calling \<^verbatim>\<open>map\<close> on a value that is not an array throws.
\<close>

definition eventos_de_items :: "lib \<Rightarrow> jsval \<Rightarrow> error + json list" where
  "eventos_de_items L items =
     (case or_else items (JArr []) of
        JArr eventosBrutos \<Rightarrow> map_throwing (mapEvento L) eventosBrutos
      | _ \<Rightarrow> Inl (TypeError ''eventosBrutos.map is not a function''))"

text \<open>
  \<open>now\<close> is the time value of \<^verbatim>\<open>new Date()\<close>. The result is what the function returns or throws,
  with the file system as \<^verbatim>\<open>getSettings\<close> left it.
\<close>

definition listarEventos ::
  "lib \<Rightarrow> int \<Rightarrow> OAuth2Client \<Rightarrow> filesystem \<Rightarrow> (error + json list) \<times> filesystem" where
  "listarEventos L now auth fs =
     (let (settings, fs1) = getSettings L fs
      in (and_then (get_prop (Some settings) ''diasEscopo'') (\<lambda>diasEscopo.
          let diasParaVer = or_else diasEscopo (JNum 1);
              inicio = setHours L (setDate_plus L (Some now) (Some 1)) 0 0 0 0;
              fim = setHours L
                      (setDate_plus L inicio (map_option (\<lambda>n. n - 1) (to_number L diasParaVer)))
                      23 59 59 999
          in and_then (toISOString inicio) (\<lambda>tmin.
             and_then (toISOString fim) (\<lambda>tmax.
             and_then (events_list L auth
                         \<lparr>calendarId = ''primary'', timeMin = tmin, timeMax = tmax,
                          singleEvents = True, orderBy = ''startTime''\<rparr>)
               (eventos_de_items L)))), fs1))"

section \<open>HTTP handlers\<close>

record response =
  status :: nat
  body :: json

definition json_response :: "nat \<Rightarrow> json \<Rightarrow> response" where
  "json_response code v = \<lparr>status = code, body = v\<rparr>"

subsection \<open>POST /api/salvar\<close>

definition NumeroInvalido :: string where
  "NumeroInvalido = ''N'' @ [CHR 0xC3, CHR 0xBA] @ ''mero inv'' @ [CHR 0xC3, CHR 0xA1] @ ''lido''"

text \<open>
  Lines \<^verbatim>\<open>db[nome]\<close> to \<^verbatim>\<open>db[nome].telefone = numeroLimpo\<close>, for \<open>nome\<close> an ordinary property
  name. The value stored under \<open>nome\<close> is replaced by \<^verbatim>\<open>{}\<close> unless it is an object or an array;
  a property set on an array is not serialised; a property write on a primitive is dropped.
\<close>

definition set_telefone :: "json \<Rightarrow> string \<Rightarrow> json" where
  "set_telefone paciente numeroLimpo =
     (case paciente of
        JObj r \<Rightarrow> JObj (AList.update ''telefone'' (JStr numeroLimpo) r)
      | JArr a \<Rightarrow> JArr a
      | _ \<Rightarrow> JObj [(''telefone'', JStr numeroLimpo)])"

definition upsert_telefone :: "json \<Rightarrow> string \<Rightarrow> string \<Rightarrow> error + json" where
  "upsert_telefone db nome numeroLimpo =
     (case db of
        JObj kv \<Rightarrow>
          Inr (JObj (AList.update nome
                 (set_telefone (case map_of kv nome of Some v \<Rightarrow> v | None \<Rightarrow> JNull) numeroLimpo) kv))
      | JArr a \<Rightarrow> Inr (JArr a)
      | JNull \<Rightarrow> Inl (cannot_read ''null'' nome)
      | _ \<Rightarrow> Inl (TypeError (''Cannot set properties of undefined (setting ''
                     @ [CHR 0x27] @ ''telefone'' @ [CHR 0x27] @ '')'')))"

text \<open>The \<^verbatim>\<open>try\<close> block of the handler; \<open>Inl\<close> is the error that reaches its \<^verbatim>\<open>catch\<close>.\<close>

definition api_salvar_try ::
  "lib \<Rightarrow> string \<Rightarrow> string \<Rightarrow> filesystem \<Rightarrow> error + response \<times> filesystem" where
  "api_salvar_try L nome telefone fs =
     (let numeroLimpo = prepararNumero L telefone
      in if \<not> truthy (map_option JStr numeroLimpo) then
           Inr (json_response 400
                  (JObj [(''success'', JBool False), (''message'', JStr NumeroInvalido)]), fs)
         else
           and_then (if existsSync fs DB_PATH
                     then and_then (readFileSync fs DB_PATH) (JSON_parse L)
                     else Inr (JObj [])) (\<lambda>db.
           and_then (upsert_telefone db nome (case numeroLimpo of Some n \<Rightarrow> n | None \<Rightarrow> [])) (\<lambda>db'.
             Inr (json_response 200 (JObj [(''success'', JBool True)]),
                  writeFileSync fs DB_PATH (JSON_stringify L db' 2)))))"

definition api_salvar :: "lib \<Rightarrow> string \<Rightarrow> string \<Rightarrow> filesystem \<Rightarrow> response \<times> filesystem" where
  "api_salvar L nome telefone fs =
     (case api_salvar_try L nome telefone fs of
        Inr r \<Rightarrow> r
      | Inl e \<Rightarrow>
          (json_response 500 (JObj [(''success'', JBool False), (''message'', JStr (message e))]), fs))"

subsection \<open>GET /api/agenda\<close>

definition api_agenda_catch :: "error \<Rightarrow> filesystem \<Rightarrow> response \<times> filesystem" where
  "api_agenda_catch e fs =
     (if message e = ''AUTH_REQUIRED'' \<or> str_includes (message e) ''invalid_grant'' then
        (json_response 401 (JObj [(''error'', JStr ''AUTH_REQUIRED'')]),
         if existsSync fs TOKEN_PATH then unlinkSync fs TOKEN_PATH else fs)
      else
        (json_response 500 (JObj [(''error'', JStr (''Erro ao buscar agenda: '' @ message e))]), fs))"

definition api_agenda :: "lib \<Rightarrow> int \<Rightarrow> filesystem \<Rightarrow> response \<times> filesystem" where
  "api_agenda L now fs =
     (case carregarAuth L fs of
        Inl e \<Rightarrow> api_agenda_catch e fs
      | Inr auth \<Rightarrow>
          (case listarEventos L now auth fs of
             (Inl e, fs1) \<Rightarrow> api_agenda_catch e fs1
           | (Inr eventos, fs1) \<Rightarrow> (json_response 200 (JArr eventos), fs1)))"

subsection \<open>POST /api/upload\<close>

text \<open>
  A multipart request: the text field \<^verbatim>\<open>senha\<close> (absent when the form does not send it) and the
  file parts in the order they arrive.
\<close>

record upload_file =
  fieldname :: string
  data :: string

record upload_request =
  senha :: "string option"
  files :: "upload_file list"

text \<open>The two callbacks given to \<^verbatim>\<open>multer.diskStorage\<close>.\<close>

definition storage_destination :: "upload_file \<Rightarrow> string" where
  "storage_destination file = DATA_FOLDER"

definition storage_filename :: "upload_file \<Rightarrow> error + string" where
  "storage_filename file =
     (if fieldname file = ''credenciais'' then Inr ''credentials.json''
      else if fieldname file = ''banco'' then Inr ''pacientes.json''
      else Inl (Error (''Arquivo n'' @ [CHR 0xC3, CHR 0xA3] @ ''o permitido'')))"

definition upload_fields :: "(string \<times> nat) list" where
  "upload_fields = [(''credenciais'', 1), (''banco'', 1)]"

text \<open>
  The middleware \<^verbatim>\<open>upload.fields(...)\<close> of multer with disk storage. It takes the file parts in
  order: a part whose field is not expected, or has no file left of its \<^verbatim>\<open>maxCount\<close>, aborts with
  the error \<^verbatim>\<open>Unexpected field\<close>; otherwise the part is written to the path that the storage
  callbacks give. When it aborts, it removes the files it has stored during the request and
  passes the error to the callback; when all parts are stored it calls the callback with no
  error. \<open>filesLeft\<close> counts the files still accepted for each field and \<open>uploaded\<close> lists the
  paths stored so far.
\<close>

definition multer_abort :: "error \<Rightarrow> string list \<Rightarrow> filesystem \<Rightarrow> error option \<times> filesystem" where
  "multer_abort err uploaded fs = (Some err, fold (\<lambda>p fs'. unlinkSync fs' p) uploaded fs)"

fun multer_store ::
  "(string \<times> nat) list \<Rightarrow> upload_file list \<Rightarrow> string list \<Rightarrow> filesystem \<Rightarrow> error option \<times> filesystem" where
  "multer_store filesLeft [] uploaded fs = (None, fs)"
| "multer_store filesLeft (file # rest) uploaded fs =
     (case map_of filesLeft (fieldname file) of
        None \<Rightarrow> multer_abort (Error ''Unexpected field'') uploaded fs
      | Some 0 \<Rightarrow> multer_abort (Error ''Unexpected field'') uploaded fs
      | Some (Suc n) \<Rightarrow>
          (case storage_filename file of
             Inl e \<Rightarrow> multer_abort e uploaded fs
           | Inr name \<Rightarrow>
               (let p = path_join (storage_destination file) name
                in multer_store (AList.update (fieldname file) n filesLeft) rest (p # uploaded)
                     (writeFileSync fs p (data file)))))"

definition uploadFields :: "upload_request \<Rightarrow> filesystem \<Rightarrow> error option \<times> filesystem" where
  "uploadFields req fs = multer_store upload_fields (files req) [] fs"

definition SenhaIncorreta :: string where
  "SenhaIncorreta = ''Senha incorreta!''"

text \<open>
  The handler: \<^verbatim>\<open>uploadFields\<close> runs first and the callback, with the password check, after it.
  \<open>Inl\<close> is an error thrown by the callback, which has no \<^verbatim>\<open>try\<close> around it.
\<close>

definition api_upload ::
  "lib \<Rightarrow> upload_request \<Rightarrow> filesystem \<Rightarrow> (error + response) \<times> filesystem" where
  "api_upload L req fs =
     (case uploadFields req fs of
        (Some err, fs1) \<Rightarrow>
          (Inr (json_response 500
                  (JObj [(''success'', JBool False), (''message'', JStr (message err))])), fs1)
      | (None, fs1) \<Rightarrow>
          (let (settings, fs2) = getSettings L fs1
           in (and_then (get_prop (Some settings) ''senhaAdmin'') (\<lambda>senhaAdmin.
                 if map_option JStr (senha req) \<noteq> senhaAdmin then
                   Inr (json_response 403
                          (JObj [(''success'', JBool False), (''message'', JStr SenhaIncorreta)]))
                 else
                   Inr (json_response 200
                          (JObj [(''success'', JBool True), (''message'', JStr ''Arquivo atualizado!'')]))),
               fs2)))"

section \<open>A reference environment\<close>

text \<open>
  To run the program on concrete files, \<open>ref_lib\<close> gives each library function a small
  implementation. \<open>parseJSON\<close> reads the JSON texts whose numbers are integers and whose strings
  use the two-character escapes only, and rejects everything else; \<open>stringifyJSON\<close> prints a
  value the way \<^verbatim>\<open>JSON.stringify(v, null, n)\<close> does. The messages of the errors they return
  are schematic: the engine's wording depends on the input and on its version.
\<close>

definition is_digit :: "char \<Rightarrow> bool" where
  "is_digit c = (48 \<le> (of_char c :: nat) \<and> (of_char c :: nat) \<le> 57)"

definition digits_value :: "string \<Rightarrow> int" where
  "digits_value ds = foldl (\<lambda>a c. 10 * a + (of_char c - 48)) 0 ds"

definition is_json_ws :: "char \<Rightarrow> bool" where
  "is_json_ws c = (c \<in> set [CHR 0x20, CHR 0x09, CHR 0x0A, CHR 0x0D])"

definition skip_ws :: "string \<Rightarrow> string" where
  "skip_ws s = dropWhile is_json_ws s"

definition unescape :: "char \<Rightarrow> char option" where
  "unescape c =
     (if c = CHR 0x22 then Some (CHR 0x22)
      else if c = CHR 0x5C then Some (CHR 0x5C)
      else if c = CHR ''/'' then Some (CHR ''/'')
      else if c = CHR ''b'' then Some (CHR 0x08)
      else if c = CHR ''f'' then Some (CHR 0x0C)
      else if c = CHR ''n'' then Some (CHR 0x0A)
      else if c = CHR ''r'' then Some (CHR 0x0D)
      else if c = CHR ''t'' then Some (CHR 0x09)
      else None)"

text \<open>The characters of a string literal after its opening quote, and the rest of the input.\<close>

fun parse_chars :: "string \<Rightarrow> string \<Rightarrow> (string \<times> string) option" where
  "parse_chars acc [] = None"
| "parse_chars acc [c] = (if c = CHR 0x22 then Some (rev acc, []) else None)"
| "parse_chars acc (c # d # cs) =
     (if c = CHR 0x22 then Some (rev acc, d # cs)
      else if c = CHR 0x5C then
        (case unescape d of None \<Rightarrow> None | Some x \<Rightarrow> parse_chars (x # acc) cs)
      else if (of_char c :: nat) < 32 then None
      else parse_chars (c # acc) (d # cs))"

definition parse_number :: "string \<Rightarrow> (json \<times> string) option" where
  "parse_number s =
     (let neg = (s \<noteq> [] \<and> hd s = CHR ''-'');
          r = (if neg then tl s else s);
          ds = takeWhile is_digit r;
          rest = dropWhile is_digit r
      in if ds = [] \<or> (1 < length ds \<and> hd ds = CHR ''0'')
            \<or> (rest \<noteq> [] \<and> hd rest \<in> set ''.eE'') then None
         else Some (JNum (if neg then - digits_value ds else digits_value ds), rest))"

text \<open>
  The value at the head of the input, with the input left after it. The first argument bounds
  the depth of the recursion; the length of the input is always enough.
\<close>

definition parse_atom :: "string \<Rightarrow> (json \<times> string) option" where
  "parse_atom t =
     (if take 4 t = ''null'' then Some (JNull, drop 4 t)
      else if take 4 t = ''true'' then Some (JBool True, drop 4 t)
      else if take 5 t = ''false'' then Some (JBool False, drop 5 t)
      else if take 1 t = [CHR 0x22] then
        map_option (\<lambda>(str, r). (JStr str, r)) (parse_chars [] (drop 1 t))
      else parse_number t)"

definition closes :: "string \<Rightarrow> string \<Rightarrow> bool" where
  "closes bracket s = (take 1 (skip_ws s) = bracket)"

definition parse_key :: "string \<Rightarrow> (string \<times> string) option" where
  "parse_key s =
     (let t = skip_ws s
      in if take 1 t \<noteq> [CHR 0x22] then None
         else
           (case parse_chars [] (drop 1 t) of
              None \<Rightarrow> None
            | Some (k, r) \<Rightarrow> if take 1 (skip_ws r) \<noteq> '':'' then None else Some (k, drop 1 (skip_ws r))))"

fun parse_value :: "nat \<Rightarrow> string \<Rightarrow> (json \<times> string) option"
  and parse_elements :: "nat \<Rightarrow> json list \<Rightarrow> string \<Rightarrow> (json \<times> string) option"
  and parse_members :: "nat \<Rightarrow> (string \<times> json) list \<Rightarrow> string \<Rightarrow> (json \<times> string) option"
where
  "parse_value 0 s = None"
| "parse_value (Suc n) s =
     (if closes ''['' s then
        (if closes '']'' (drop 1 (skip_ws s)) then Some (JArr [], drop 1 (skip_ws (drop 1 (skip_ws s))))
         else parse_elements n [] (drop 1 (skip_ws s)))
      else if closes ''{'' s then
        (if closes ''}'' (drop 1 (skip_ws s)) then Some (JObj [], drop 1 (skip_ws (drop 1 (skip_ws s))))
         else parse_members n [] (drop 1 (skip_ws s)))
      else parse_atom (skip_ws s))"
| "parse_elements 0 acc s = None"
| "parse_elements (Suc n) acc s =
     (case parse_value n s of
        None \<Rightarrow> None
      | Some (v, r) \<Rightarrow>
          if closes '','' r then parse_elements n (acc @ [v]) (drop 1 (skip_ws r))
          else if closes '']'' r then Some (JArr (acc @ [v]), drop 1 (skip_ws r))
          else None)"
| "parse_members 0 acc s = None"
| "parse_members (Suc n) acc s =
     (case parse_key s of
        None \<Rightarrow> None
      | Some (k, r) \<Rightarrow>
          (case parse_value n r of
             None \<Rightarrow> None
           | Some (v, r') \<Rightarrow>
               if closes '','' r' then parse_members n (AList.update k v acc) (drop 1 (skip_ws r'))
               else if closes ''}'' r' then Some (JObj (AList.update k v acc), drop 1 (skip_ws r'))
               else None))"

definition parseJSON :: "string \<Rightarrow> error + json" where
  "parseJSON s =
     (case parse_value (Suc (length s)) s of
        Some (v, r) \<Rightarrow>
          if skip_ws r = [] then Inr v else Inl (SyntaxError ''Unexpected non-whitespace character after JSON'')
      | None \<Rightarrow> Inl (SyntaxError ''Unexpected token in JSON''))"

definition hex_digit :: "nat \<Rightarrow> char" where
  "hex_digit n = (if n < 10 then char_of (48 + n) else char_of (87 + n))"

definition escape_char :: "char \<Rightarrow> string" where
  "escape_char c =
     (if c = CHR 0x22 then [CHR 0x5C, CHR 0x22]
      else if c = CHR 0x5C then [CHR 0x5C, CHR 0x5C]
      else if c = CHR 0x08 then [CHR 0x5C, CHR ''b'']
      else if c = CHR 0x0C then [CHR 0x5C, CHR ''f'']
      else if c = CHR 0x0A then [CHR 0x5C, CHR ''n'']
      else if c = CHR 0x0D then [CHR 0x5C, CHR ''r'']
      else if c = CHR 0x09 then [CHR 0x5C, CHR ''t'']
      else if (of_char c :: nat) < 32 then
        [CHR 0x5C, CHR ''u'', CHR ''0'', CHR ''0'', hex_digit (of_char c div 16), hex_digit (of_char c mod 16)]
      else [c])"

definition quote :: "string \<Rightarrow> string" where
  "quote s = [CHR 0x22] @ concat (map escape_char s) @ [CHR 0x22]"

fun join_with :: "string \<Rightarrow> string list \<Rightarrow> string" where
  "join_with sep [] = []"
| "join_with sep [x] = x"
| "join_with sep (x # y # ys) = x @ sep @ join_with sep (y # ys)"

definition line_break :: "nat \<Rightarrow> nat \<Rightarrow> string" where
  "line_break gap level = (if gap = 0 then [] else CHR 0x0A # replicate (gap * level) CHR '' '')"

fun stringify_at :: "nat \<Rightarrow> nat \<Rightarrow> json \<Rightarrow> string" where
  "stringify_at gap level JNull = ''null''"
| "stringify_at gap level (JBool b) = (if b then ''true'' else ''false'')"
| "stringify_at gap level (JNum n) = show_int n"
| "stringify_at gap level (JStr s) = quote s"
| "stringify_at gap level (JArr xs) =
     (if xs = [] then ''[]''
      else ''['' @ line_break gap (Suc level)
           @ join_with ('','' @ line_break gap (Suc level)) (map (stringify_at gap (Suc level)) xs)
           @ line_break gap level @ '']'')"
| "stringify_at gap level (JObj kv) =
     (if kv = [] then ''{}''
      else ''{'' @ line_break gap (Suc level)
           @ join_with ('','' @ line_break gap (Suc level))
               (map (\<lambda>m. quote (fst m) @ (if gap = 0 then '':'' else '': '')
                          @ stringify_at gap (Suc level) (snd m)) kv)
           @ line_break gap level @ ''}'')"

definition stringifyJSON :: "json \<Rightarrow> nat \<Rightarrow> string" where
  "stringifyJSON v gap = stringify_at gap 0 v"

text \<open>
  A stand-in for google-libphonenumber on Brazilian national numbers written with digits only:
  the number is valid when it has an area code and a subscriber number of eight or nine digits,
  and its E.164 form is the country code 55 before it.
\<close>

definition ref_parsePhone :: "string \<Rightarrow> string \<Rightarrow> error + PhoneNumber" where
  "ref_parsePhone raw region =
     (if region = ''BR'' \<and> 2 \<le> length raw \<and> length raw \<le> 17 \<and> list_all is_digit raw then
        Inr \<lparr>country_code = 55, national_number = raw, raw_input = raw\<rparr>
      else Inl (Error ''The string supplied did not seem to be a phone number''))"

definition ref_isValid :: "PhoneNumber \<Rightarrow> bool" where
  "ref_isValid p =
     (country_code p = 55 \<and> length (national_number p) \<in> {10, 11})"

definition ref_format :: "PhoneNumber \<Rightarrow> PhoneNumberFormat \<Rightarrow> string" where
  "ref_format p f = ''+'' @ show_nat (country_code p) @ national_number p"

text \<open>
  Local time three hours behind UTC, with no daylight saving. The locale renderings read the
  day, month, hour and minute off a \<^verbatim>\<open>dateTime\<close> string that carries the local offset. The
  provider answers every query with the same two events, the second without a title.
\<close>

definition ref_offset :: int where
  "ref_offset = 3 * 3600000"

definition ref_date :: "jsval \<Rightarrow> string" where
  "ref_date v =
     (case v of
        Some (JStr s) \<Rightarrow> take 2 (drop 8 s) @ ''/'' @ take 2 (drop 5 s)
      | _ \<Rightarrow> ''Invalid Date'')"

definition ref_time :: "jsval \<Rightarrow> string" where
  "ref_time v = (case v of Some (JStr s) \<Rightarrow> take 5 (drop 11 s) | _ \<Rightarrow> ''Invalid Date'')"

definition ref_events :: "json list" where
  "ref_events =
     [JObj [(''summary'', JStr ''Maria''),
            (''start'', JObj [(''dateTime'', JStr ''2024-05-11T09:30:00-03:00'')])],
      JObj [(''start'', JObj [(''dateTime'', JStr ''2024-05-11T14:00:00-03:00'')])]]"

text \<open>A credentials file of the web kind, and the client built from it.\<close>

definition ref_credentials :: string where
  "ref_credentials = ''{\"web\": {\"client_id\": \"id-1\", \"client_secret\": \"s-1\"}}''"

definition ref_client :: OAuth2Client where
  "ref_client = \<lparr>client_id = Some (JStr ''id-1''), client_secret = Some (JStr ''s-1''),
                  redirect_uri = redirectUri, credentials = Some (JObj [])\<rparr>"

definition ref_lib :: lib where
  "ref_lib =
     \<lparr>JSON_parse = parseJSON,
      JSON_stringify = stringifyJSON,
      ToNumber = (\<lambda>v. None),
      parseAndKeepRawInput = ref_parsePhone,
      isValidNumber = ref_isValid,
      format = ref_format,
      LocalTime = (\<lambda>t. t - ref_offset),
      UTC = (\<lambda>t. t + ref_offset),
      toLocaleDateString = ref_date,
      toLocaleTimeString = ref_time,
      events_list = (\<lambda>auth q. Inr (Some (JArr ref_events)))\<rparr>"

text \<open>A settings file with a look-ahead of three days and the password \<^verbatim>\<open>admin\<close>.\<close>

definition ref_settings :: string where
  "ref_settings = stringifyJSON (JObj [(''diasEscopo'', JNum 3), (''senhaAdmin'', JStr ''admin''),
                                       (''ocultarIgnorados'', JBool True)]) 2"








section \<open>Predicates used to state the properties\<close>

definition settings_keys :: "string list" where
  "settings_keys = [''diasEscopo'', ''senhaAdmin'', ''ocultarIgnorados'']"

text \<open>The settings file exists, parses to an object, and the object has the three keys.\<close>

definition file_has_all_keys :: "lib \<Rightarrow> filesystem \<Rightarrow> bool" where
  "file_has_all_keys L fs =
     (case fs SETTINGS_PATH of
        None \<Rightarrow> False
      | Some content \<Rightarrow>
          (case JSON_parse L content of
             Inr (JObj kv) \<Rightarrow> list_all (\<lambda>k. map_of kv k \<noteq> None) settings_keys
           | _ \<Rightarrow> False))"


section \<open>Settings store: properties\<close>

lemma getSettings_try_missing:
  "fs SETTINGS_PATH = None \<Longrightarrow> \<exists>e. getSettings_try L fs = Inl e"
  by (simp add: getSettings_try_def existsSync_def)

lemma getSettings_try_content:
  "fs SETTINGS_PATH = Some content \<Longrightarrow>
   getSettings_try L fs =
     (if trim content = [] then Inl (Error ''Arquivo vazio'') else JSON_parse L content)"
  by (simp add: getSettings_try_def existsSync_def readFileSync_def)

lemma getSettings_on_error:
  "getSettings_try L fs = Inl e \<Longrightarrow>
   getSettings L fs = (defaultSettings, fs(SETTINGS_PATH \<mapsto> JSON_stringify L defaultSettings 2))"
  by (simp add: getSettings_def writeFileSync_def)

lemma getSettings_on_value:
  "getSettings_try L fs = Inr v \<Longrightarrow> getSettings L fs = (v, fs)"
  by (simp add: getSettings_def)

lemma getSettings_unreadable:
  assumes "fs SETTINGS_PATH = None \<or>
           (\<exists>content. fs SETTINGS_PATH = Some content \<and>
              (trim content = [] \<or> (\<exists>e. JSON_parse L content = Inl e)))"
  shows "getSettings L fs =
           (defaultSettings, fs(SETTINGS_PATH \<mapsto> JSON_stringify L defaultSettings 2))"
proof -
  from assms have "\<exists>e. getSettings_try L fs = Inl e"
  proof (elim disjE exE conjE)
    assume "fs SETTINGS_PATH = None"
    then show ?thesis by (rule getSettings_try_missing)
  next
    fix content assume "fs SETTINGS_PATH = Some content" "trim content = []"
    then show ?thesis by (simp add: getSettings_try_content)
  next
    fix content e assume "fs SETTINGS_PATH = Some content" "JSON_parse L content = Inl e"
    then show ?thesis by (simp add: getSettings_try_content)
  qed
  then show ?thesis
    by (auto simp: getSettings_on_error)
qed

lemma getSettings_readable:
  "fs SETTINGS_PATH = Some content \<Longrightarrow> trim content \<noteq> [] \<Longrightarrow> JSON_parse L content = Inr v \<Longrightarrow>
   getSettings L fs = (v, fs)"
  by (simp add: getSettings_on_value getSettings_try_content)

text \<open>
  C3. When the settings file is missing, blank, or does not parse, \<open>getSettings\<close> returns the
  default object \<^verbatim>\<open>{diasEscopo: 1, senhaAdmin: "admin", ocultarIgnorados: true}\<close> and writes
  that object, pretty-printed, to the settings file. The error raised inside (by the parser or
  by the function itself) is caught: the function has no failing result.
\<close>

theorem getSettings_self_heals:
  assumes "fs SETTINGS_PATH = None \<or>
           (\<exists>content. fs SETTINGS_PATH = Some content \<and>
              (trim content = [] \<or> (\<exists>e. JSON_parse L content = Inl e)))"
  shows "getSettings L fs =
           (defaultSettings, fs(SETTINGS_PATH \<mapsto> JSON_stringify L defaultSettings 2)) \<and>
         defaultSettings =
           JObj [(''diasEscopo'', JNum 1), (''senhaAdmin'', JStr ''admin''),
                 (''ocultarIgnorados'', JBool True)]"
  using assms by (simp add: getSettings_unreadable defaultSettings_def)

theorem getSettings_self_heals_witness:
  "getSettings ref_lib Map.empty =
     (defaultSettings, [SETTINGS_PATH \<mapsto> JSON_stringify ref_lib defaultSettings 2]) \<and>
   trim [CHR 0x20, CHR 0x0A] = [] \<and>
   getSettings ref_lib [SETTINGS_PATH \<mapsto> [CHR 0x20, CHR 0x0A]] =
     (defaultSettings, [SETTINGS_PATH \<mapsto> JSON_stringify ref_lib defaultSettings 2]) \<and>
   JSON_parse ref_lib ''{oops'' = Inl (SyntaxError ''Unexpected token in JSON'') \<and>
   getSettings ref_lib [SETTINGS_PATH \<mapsto> ''{oops''] =
     (defaultSettings, [SETTINGS_PATH \<mapsto> JSON_stringify ref_lib defaultSettings 2])"
proof -
  have t: "trim [CHR 0x20, CHR 0x0A] = []"
    by (simp add: trim_def is_space_def)
  have p: "JSON_parse ref_lib ''{oops'' = Inl (SyntaxError ''Unexpected token in JSON'')"
    by code_simp
  show ?thesis
    using getSettings_self_heals [of Map.empty ref_lib]
      getSettings_self_heals [of "[SETTINGS_PATH \<mapsto> [CHR 0x20, CHR 0x0A]]" ref_lib]
      getSettings_self_heals [of "[SETTINGS_PATH \<mapsto> ''{oops'']" ref_lib] t p
    by simp
qed

text \<open>
  C2, as stated, fails: a settings file holding the empty object \<^verbatim>\<open>{}\<close> parses, so
  \<open>getSettings\<close> returns it and writes nothing, and the file has none of the three keys
  afterwards.
\<close>

theorem getSettings_keeps_partial_file:
  "\<not> file_has_all_keys ref_lib (snd (getSettings ref_lib [SETTINGS_PATH \<mapsto> ''{}'']))"
proof -
  have p: "JSON_parse ref_lib ''{}'' = Inr (JObj [])"
    by code_simp
  have t: "trim ''{}'' \<noteq> []"
    by (simp add: trim_def is_space_def)
  have "getSettings ref_lib [SETTINGS_PATH \<mapsto> ''{}''] = (JObj [], [SETTINGS_PATH \<mapsto> ''{}''])"
    using p t by (simp add: getSettings_readable)
  then show ?thesis
    using p by (simp add: file_has_all_keys_def settings_keys_def)
qed

text \<open>
  C2, amended. When the settings file is missing, blank, or does not parse, the file holds all
  three keys after \<open>getSettings\<close> (the default object is written, and the parser reads back what
  the printer wrote). When the file parses, \<open>getSettings\<close> returns the parsed value and leaves
  the file as it was.
\<close>

theorem getSettings_heals_only_on_error:
  assumes rt: "JSON_parse L (JSON_stringify L defaultSettings 2) = Inr defaultSettings"
  shows "(fs SETTINGS_PATH = None \<or>
           (\<exists>content. fs SETTINGS_PATH = Some content \<and>
              (trim content = [] \<or> (\<exists>e. JSON_parse L content = Inl e)))
          \<longrightarrow> file_has_all_keys L (snd (getSettings L fs))) \<and>
         (\<forall>content v. fs SETTINGS_PATH = Some content \<and> trim content \<noteq> [] \<and>
              JSON_parse L content = Inr v
          \<longrightarrow> getSettings L fs = (v, fs))"
proof (intro conjI impI allI)
  assume "fs SETTINGS_PATH = None \<or>
           (\<exists>content. fs SETTINGS_PATH = Some content \<and>
              (trim content = [] \<or> (\<exists>e. JSON_parse L content = Inl e)))"
  then have "getSettings L fs =
           (defaultSettings, fs(SETTINGS_PATH \<mapsto> JSON_stringify L defaultSettings 2))"
    by (rule getSettings_unreadable)
  then show "file_has_all_keys L (snd (getSettings L fs))"
    using rt by (simp add: file_has_all_keys_def settings_keys_def defaultSettings_def)
next
  fix content v
  assume "fs SETTINGS_PATH = Some content \<and> trim content \<noteq> [] \<and> JSON_parse L content = Inr v"
  then show "getSettings L fs = (v, fs)"
    by (simp add: getSettings_readable)
qed

theorem getSettings_heals_only_on_error_witness:
  "JSON_parse ref_lib (JSON_stringify ref_lib defaultSettings 2) = Inr defaultSettings \<and>
   file_has_all_keys ref_lib (snd (getSettings ref_lib Map.empty)) \<and>
   JSON_parse ref_lib ''{}'' = Inr (JObj []) \<and>
   getSettings ref_lib [SETTINGS_PATH \<mapsto> ''{}''] = (JObj [], [SETTINGS_PATH \<mapsto> ''{}''])"
proof -
  have rt: "JSON_parse ref_lib (JSON_stringify ref_lib defaultSettings 2) = Inr defaultSettings"
    by code_simp
  have p: "JSON_parse ref_lib ''{}'' = Inr (JObj [])"
    by code_simp
  have t: "trim ''{}'' \<noteq> []"
    by (simp add: trim_def is_space_def)
  show ?thesis
    using getSettings_heals_only_on_error [OF rt, of Map.empty]
      getSettings_heals_only_on_error [OF rt, of "[SETTINGS_PATH \<mapsto> ''{}'']"] rt p t
    by simp
qed

lemma map_of_update_fold:
  "distinct (map fst src) \<Longrightarrow>
   map_of (fold (\<lambda>(k, v) acc. AList.update k v acc) src target) = map_of target ++ map_of src"
proof (induction src arbitrary: target)
  case Nil
  then show ?case by simp
next
  case (Cons kv src)
  obtain k v where kv: "kv = (k, v)" by (cases kv)
  from Cons.prems kv have d: "distinct (map fst src)" and nk: "k \<notin> fst ` set src"
    by auto
  have "map_of (fold (\<lambda>(k, v) acc. AList.update k v acc) src (AList.update k v target))
        = map_of (AList.update k v target) ++ map_of src"
    using Cons.IH [OF d] .
  also have "\<dots> = (map_of target)(k \<mapsto> v) ++ map_of src"
    by (simp add: update_conv')
  also have "\<dots> = map_of target ++ (map_of src)(k \<mapsto> v)"
  proof (rule ext)
    fix x
    from nk have "map_of src k = None"
      by (simp add: map_of_eq_None_iff)
    then show "((map_of target)(k \<mapsto> v) ++ map_of src) x = (map_of target ++ (map_of src)(k \<mapsto> v)) x"
      by (auto simp: map_add_def split: option.splits)
  qed
  finally have step: "map_of (fold (\<lambda>(k, v) acc. AList.update k v acc) src (AList.update k v target))
        = map_of target ++ (map_of src)(k \<mapsto> v)" .
  have l: "fold (\<lambda>(k, v) acc. AList.update k v acc) (kv # src) target
        = fold (\<lambda>(k, v) acc. AList.update k v acc) src (AList.update k v target)"
    using kv by simp
  have r: "map_of (kv # src) = (map_of src)(k \<mapsto> v)"
    using kv by simp
  show ?case
    unfolding l r by (rule step)
qed

lemma map_of_assign_props:
  "distinct (map fst src) \<Longrightarrow> map_of (assign_props target src) = map_of target ++ map_of src"
  by (simp add: assign_props_def map_of_update_fold)

lemma map_of_spread2:
  assumes "distinct (map fst s)" "distinct (map fst p)"
  shows "\<exists>kv. spread2 (JObj s) (JObj p) = JObj kv \<and> map_of kv = map_of s ++ map_of p"
  using assms by (simp add: spread2_def map_of_assign_props)

lemma saveSettings_written:
  "getSettings L fs = (S, fs1) \<Longrightarrow>
   saveSettings L P fs = fs1(SETTINGS_PATH \<mapsto> JSON_stringify L (spread2 S P) 2)"
  by (simp add: saveSettings_def writeFileSync_def)

text \<open>
  C6. Let \<open>S\<close> be the object that \<open>getSettings\<close> returns now and \<open>P\<close> an object of new values.
  After \<open>saveSettings P\<close>, \<open>getSettings\<close> returns an object in which every key of \<open>P\<close> has
  \<open>P\<close>'s value and every other key has the value it has in \<open>S\<close> (and is absent when absent
  from both). The parser is assumed to read back the text the printer writes for the merged
  object; objects have distinct keys.
\<close>

theorem saveSettings_then_getSettings:
  assumes cur: "getSettings L fs = (JObj s, fs1)"
      and ds: "distinct (map fst s)" and dp: "distinct (map fst p)"
      and rt: "JSON_parse L (JSON_stringify L (spread2 (JObj s) (JObj p)) 2) = Inr (spread2 (JObj s) (JObj p))"
      and nb: "trim (JSON_stringify L (spread2 (JObj s) (JObj p)) 2) \<noteq> []"
  shows "\<exists>kv. fst (getSettings L (saveSettings L (JObj p) fs)) = JObj kv \<and>
              (\<forall>k. map_of kv k = (case map_of p k of Some v \<Rightarrow> Some v | None \<Rightarrow> map_of s k))"
proof -
  from map_of_spread2 [OF ds dp] obtain kv
    where kv: "spread2 (JObj s) (JObj p) = JObj kv" and m: "map_of kv = map_of s ++ map_of p"
    by blast
  have "saveSettings L (JObj p) fs = fs1(SETTINGS_PATH \<mapsto> JSON_stringify L (JObj kv) 2)"
    using saveSettings_written [OF cur] kv by simp
  moreover have "getSettings L (fs1(SETTINGS_PATH \<mapsto> JSON_stringify L (JObj kv) 2))
        = (JObj kv, fs1(SETTINGS_PATH \<mapsto> JSON_stringify L (JObj kv) 2))"
    using rt nb kv by (intro getSettings_readable) simp_all
  ultimately have "fst (getSettings L (saveSettings L (JObj p) fs)) = JObj kv"
    by simp
  moreover have "\<forall>k. map_of kv k = (case map_of p k of Some v \<Rightarrow> Some v | None \<Rightarrow> map_of s k)"
    using m by (simp add: map_add_def)
  ultimately show ?thesis by blast
qed

theorem saveSettings_then_getSettings_witness:
  "getSettings ref_lib [SETTINGS_PATH \<mapsto> stringifyJSON defaultSettings 2]
     = (defaultSettings, [SETTINGS_PATH \<mapsto> stringifyJSON defaultSettings 2]) \<and>
   (\<exists>kv. fst (getSettings ref_lib (saveSettings ref_lib (JObj [(''diasEscopo'', JNum 7)])
                 [SETTINGS_PATH \<mapsto> stringifyJSON defaultSettings 2])) = JObj kv \<and>
         map_of kv ''diasEscopo'' = Some (JNum 7) \<and>
         map_of kv ''senhaAdmin'' = Some (JStr ''admin'') \<and>
         map_of kv ''ocultarIgnorados'' = Some (JBool True))"
proof -
  let ?s = "[(''diasEscopo'', JNum 1), (''senhaAdmin'', JStr ''admin''), (''ocultarIgnorados'', JBool True)]"
  let ?p = "[(''diasEscopo'', JNum 7)]"
  let ?fs = "[SETTINGS_PATH \<mapsto> stringifyJSON defaultSettings 2]"
  have p0: "JSON_parse ref_lib (stringifyJSON defaultSettings 2) = Inr (JObj ?s)"
    by code_simp
  have t0: "trim (stringifyJSON defaultSettings 2) \<noteq> []"
    by code_simp
  have cur: "getSettings ref_lib ?fs = (JObj ?s, ?fs)"
    using p0 t0 by (intro getSettings_readable) simp_all
  have ds: "distinct (map fst ?s)" and dp: "distinct (map fst ?p)"
    by simp_all
  have rt: "JSON_parse ref_lib (JSON_stringify ref_lib (spread2 (JObj ?s) (JObj ?p)) 2)
            = Inr (spread2 (JObj ?s) (JObj ?p))"
    by code_simp
  have nb: "trim (JSON_stringify ref_lib (spread2 (JObj ?s) (JObj ?p)) 2) \<noteq> []"
    by code_simp
  from saveSettings_then_getSettings [OF cur ds dp rt nb]
  obtain kv where a: "fst (getSettings ref_lib (saveSettings ref_lib (JObj ?p) ?fs)) = JObj kv"
    and b: "\<forall>k. map_of kv k = (case map_of ?p k of Some v \<Rightarrow> Some v | None \<Rightarrow> map_of ?s k)"
    by blast
  from b have "map_of kv ''diasEscopo'' = Some (JNum 7)"
    and "map_of kv ''senhaAdmin'' = Some (JStr ''admin'')"
    and "map_of kv ''ocultarIgnorados'' = Some (JBool True)"
    by simp_all
  with a cur show ?thesis
    by (auto simp: defaultSettings_def)
qed

section \<open>Phone normalizer: properties\<close>

text \<open>
  C7. \<open>prepararNumero\<close> returns \<^verbatim>\<open>null\<close> when parsing under the region BR throws, and when the
  parsed number is not valid. Otherwise it returns the E.164 rendering with its first plus sign
  removed: when that rendering is a plus sign followed by digits, as E.164 is, the result is
  the rendering without its leading plus sign and consists of digits only.
\<close>

theorem prepararNumero_spec:
  "(\<forall>e. parseAndKeepRawInput L numeroBruto ''BR'' = Inl e \<longrightarrow> prepararNumero L numeroBruto = None) \<and>
   (\<forall>p. parseAndKeepRawInput L numeroBruto ''BR'' = Inr p \<and> \<not> isValidNumber L p
        \<longrightarrow> prepararNumero L numeroBruto = None) \<and>
   (\<forall>p. parseAndKeepRawInput L numeroBruto ''BR'' = Inr p \<and> isValidNumber L p
        \<longrightarrow> prepararNumero L numeroBruto = Some (remove1 CHR ''+'' (format L p E164))) \<and>
   (\<forall>p ds. parseAndKeepRawInput L numeroBruto ''BR'' = Inr p \<and> isValidNumber L p \<and>
           format L p E164 = CHR ''+'' # ds \<and> list_all is_digit ds
        \<longrightarrow> (\<exists>r. prepararNumero L numeroBruto = Some r \<and> format L p E164 = CHR ''+'' # r \<and>
                 list_all is_digit r \<and> CHR ''+'' \<notin> set r))"
proof -
  have "CHR ''+'' \<notin> set ds" if "list_all is_digit ds" for ds
  proof
    assume "CHR ''+'' \<in> set ds"
    with that have "is_digit CHR ''+''"
      by (simp add: list_all_iff)
    then show False
      by (simp add: is_digit_def)
  qed
  then show ?thesis
    by (auto simp: prepararNumero_def)
qed

theorem prepararNumero_spec_witness:
  "prepararNumero ref_lib ''abc'' = None \<and>
   prepararNumero ref_lib ''123'' = None \<and>
   prepararNumero ref_lib ''11999998888'' = Some ''5511999998888''"
proof -
  have a: "parseAndKeepRawInput ref_lib ''abc'' ''BR''
           = Inl (Error ''The string supplied did not seem to be a phone number'')"
    by code_simp
  have b: "parseAndKeepRawInput ref_lib ''123'' ''BR''
           = Inr \<lparr>country_code = 55, national_number = ''123'', raw_input = ''123''\<rparr>"
    by code_simp
  have b': "\<not> isValidNumber ref_lib \<lparr>country_code = 55, national_number = ''123'', raw_input = ''123''\<rparr>"
    by code_simp
  let ?p = "\<lparr>country_code = 55, national_number = ''11999998888'', raw_input = ''11999998888''\<rparr>"
  have c: "parseAndKeepRawInput ref_lib ''11999998888'' ''BR'' = Inr ?p"
    by code_simp
  have c': "isValidNumber ref_lib ?p"
    by code_simp
  have c'': "format ref_lib ?p E164 = CHR ''+'' # ''5511999998888''"
    by code_simp
  have d: "list_all is_digit ''5511999998888''"
    by code_simp
  from prepararNumero_spec [of ref_lib "''abc''"] a
  have r1: "prepararNumero ref_lib ''abc'' = None"
    by blast
  from prepararNumero_spec [of ref_lib "''123''"] b b'
  have r2: "prepararNumero ref_lib ''123'' = None"
    by blast
  from prepararNumero_spec [of ref_lib "''11999998888''"] c c' c'' d
  obtain r where "prepararNumero ref_lib ''11999998888'' = Some r"
    and "format ref_lib ?p E164 = CHR ''+'' # r"
    by blast
  with c'' have r3: "prepararNumero ref_lib ''11999998888'' = Some ''5511999998888''"
    by simp
  from r1 r2 r3 show ?thesis
    by simp
qed

section \<open>Patient store: properties\<close>

text \<open>
  C8. When the normalisation of the phone fails, \<^verbatim>\<open>POST /api/salvar\<close> answers 400 with
  \<^verbatim>\<open>success: false\<close> for every name, and the file system, with the patient store in it, is
  left as it was.
\<close>

theorem api_salvar_invalid_phone:
  assumes "prepararNumero L telefone = None"
  shows "api_salvar L nome telefone fs =
           (json_response 400 (JObj [(''success'', JBool False), (''message'', JStr NumeroInvalido)]), fs)"
  using assms by (simp add: api_salvar_def api_salvar_try_def)

theorem api_salvar_invalid_phone_witness:
  "prepararNumero ref_lib ''123'' = None \<and>
   api_salvar ref_lib ''Maria'' ''123'' [DB_PATH \<mapsto> ''{}''] =
     (json_response 400 (JObj [(''success'', JBool False), (''message'', JStr NumeroInvalido)]),
      [DB_PATH \<mapsto> ''{}''])"
proof -
  have n: "prepararNumero ref_lib ''123'' = None"
    by code_simp
  show ?thesis
    using api_salvar_invalid_phone [OF n, of "''Maria''" "[DB_PATH \<mapsto> ''{}'']"] n
    by simp
qed

section \<open>Credential and token manager: properties\<close>

lemma getOAuthClient_missing:
  "fs CREDENTIALS_PATH = None \<Longrightarrow> getOAuthClient L fs = Inl (Error ''CREDENTIALS_MISSING'')"
  by (simp add: getOAuthClient_def existsSync_def)

lemma getOAuthClient_content:
  "fs CREDENTIALS_PATH = Some content \<Longrightarrow>
   getOAuthClient L fs =
     and_then (JSON_parse L content) (\<lambda>keys.
     and_then (get_prop (Some keys) ''web'') (\<lambda>web.
     and_then (if truthy web then Inr web else get_prop (Some keys) ''installed'') (\<lambda>key.
     and_then (get_prop key ''client_id'') (\<lambda>cid.
     and_then (get_prop key ''client_secret'') (\<lambda>csecret.
       Inr \<lparr>client_id = cid, client_secret = csecret, redirect_uri = redirectUri,
            credentials = Some (JObj [])\<rparr>)))))"
  by (simp add: getOAuthClient_def existsSync_def readFileSync_def and_then_def)

lemma getOAuthClient_unparsable:
  "fs CREDENTIALS_PATH = Some content \<Longrightarrow> JSON_parse L content = Inl e \<Longrightarrow>
   getOAuthClient L fs = Inl e"
  by (simp add: getOAuthClient_content and_then_def)

text \<open>
  C4, as stated, fails: no path of \<open>getOAuthClient\<close> raises \<^verbatim>\<open>CREDENTIALS_INVALID\<close>. With a
  credentials file holding \<^verbatim>\<open>{}\<close> (neither \<^verbatim>\<open>web\<close> nor \<^verbatim>\<open>installed\<close>) the function fails with
  the TypeError of reading \<^verbatim>\<open>client_id\<close> of \<^verbatim>\<open>undefined\<close>; with a file that does not parse it
  fails with the parser's SyntaxError.
\<close>

theorem getOAuthClient_no_invalid_sentinel:
  "getOAuthClient ref_lib [CREDENTIALS_PATH \<mapsto> ''{}''] = Inl (cannot_read ''undefined'' ''client_id'') \<and>
   getOAuthClient ref_lib [CREDENTIALS_PATH \<mapsto> ''{}''] \<noteq> Inl (Error ''CREDENTIALS_INVALID'') \<and>
   getOAuthClient ref_lib [CREDENTIALS_PATH \<mapsto> ''{oops''] = Inl (SyntaxError ''Unexpected token in JSON'') \<and>
   getOAuthClient ref_lib [CREDENTIALS_PATH \<mapsto> ''{oops''] \<noteq> Inl (Error ''CREDENTIALS_INVALID'')"
proof -
  have p: "JSON_parse ref_lib ''{}'' = Inr (JObj [])"
    by code_simp
  have q: "JSON_parse ref_lib ''{oops'' = Inl (SyntaxError ''Unexpected token in JSON'')"
    by code_simp
  have a: "getOAuthClient ref_lib [CREDENTIALS_PATH \<mapsto> ''{}''] = Inl (cannot_read ''undefined'' ''client_id'')"
    using p by (simp add: getOAuthClient_content and_then_def)
  have b: "getOAuthClient ref_lib [CREDENTIALS_PATH \<mapsto> ''{oops''] = Inl (SyntaxError ''Unexpected token in JSON'')"
    using q by (simp add: getOAuthClient_unparsable)
  show ?thesis
    unfolding a b by (simp add: cannot_read_def)
qed

text \<open>
  C4, amended. \<open>getOAuthClient\<close> fails with \<^verbatim>\<open>CREDENTIALS_MISSING\<close> when the credentials file is
  absent. When the file does not parse, it fails with the error the parser throws; when the
  parsed value has neither a \<^verbatim>\<open>web\<close> nor an \<^verbatim>\<open>installed\<close> property, it fails with the TypeError
  of reading \<^verbatim>\<open>client_id\<close> of \<^verbatim>\<open>undefined\<close>. When it succeeds, the result is an OAuth2 client
  with the fixed redirect address, no token attached, and the \<^verbatim>\<open>client_id\<close> and
  \<^verbatim>\<open>client_secret\<close> of the \<^verbatim>\<open>web\<close> entry (when truthy) or else the \<^verbatim>\<open>installed\<close> entry of the file.
\<close>

theorem getOAuthClient_failures:
  "(fs CREDENTIALS_PATH = None \<longrightarrow> getOAuthClient L fs = Inl (Error ''CREDENTIALS_MISSING'')) \<and>
   (\<forall>content e. fs CREDENTIALS_PATH = Some content \<and> JSON_parse L content = Inl e
      \<longrightarrow> getOAuthClient L fs = Inl e) \<and>
   (\<forall>content keys. fs CREDENTIALS_PATH = Some content \<and> JSON_parse L content = Inr keys \<and>
        get_prop (Some keys) ''web'' = Inr None \<and> get_prop (Some keys) ''installed'' = Inr None
      \<longrightarrow> getOAuthClient L fs = Inl (cannot_read ''undefined'' ''client_id'')) \<and>
   (\<forall>client. getOAuthClient L fs = Inr client
      \<longrightarrow> redirect_uri client = redirectUri \<and> credentials client = Some (JObj []) \<and>
          (\<exists>content keys key. fs CREDENTIALS_PATH = Some content \<and> JSON_parse L content = Inr keys \<and>
              (get_prop (Some keys) ''web'' = Inr key \<and> truthy key \<or>
               get_prop (Some keys) ''installed'' = Inr key) \<and>
              get_prop key ''client_id'' = Inr (client_id client) \<and>
              get_prop key ''client_secret'' = Inr (client_secret client)))"
proof (intro conjI allI impI)
  assume "fs CREDENTIALS_PATH = None"
  then show "getOAuthClient L fs = Inl (Error ''CREDENTIALS_MISSING'')"
    by (rule getOAuthClient_missing)
next
  fix content e
  assume "fs CREDENTIALS_PATH = Some content \<and> JSON_parse L content = Inl e"
  then show "getOAuthClient L fs = Inl e"
    by (simp add: getOAuthClient_unparsable)
next
  fix content keys
  assume "fs CREDENTIALS_PATH = Some content \<and> JSON_parse L content = Inr keys \<and>
        get_prop (Some keys) ''web'' = Inr None \<and> get_prop (Some keys) ''installed'' = Inr None"
  then show "getOAuthClient L fs = Inl (cannot_read ''undefined'' ''client_id'')"
    by (simp add: getOAuthClient_content and_then_def)
next
  fix client
  assume ok: "getOAuthClient L fs = Inr client"
  then obtain content where c: "fs CREDENTIALS_PATH = Some content"
    by (cases "fs CREDENTIALS_PATH") (simp_all add: getOAuthClient_missing)
  note eq = getOAuthClient_content [of fs content L, OF c]
  from ok show "redirect_uri client = redirectUri"
    unfolding eq
    by (auto simp: and_then_def split: sum.splits if_splits)
  from ok show "credentials client = Some (JObj [])"
    unfolding eq
    by (auto simp: and_then_def split: sum.splits if_splits)
  from ok show "\<exists>content keys key. fs CREDENTIALS_PATH = Some content \<and> JSON_parse L content = Inr keys \<and>
              (get_prop (Some keys) ''web'' = Inr key \<and> truthy key \<or>
               get_prop (Some keys) ''installed'' = Inr key) \<and>
              get_prop key ''client_id'' = Inr (client_id client) \<and>
              get_prop key ''client_secret'' = Inr (client_secret client)"
    unfolding eq using c
    by (auto simp: and_then_def split: sum.splits if_splits)
qed


lemma ref_credentials_client:
  "fs CREDENTIALS_PATH = Some ref_credentials \<Longrightarrow> getOAuthClient ref_lib fs = Inr ref_client"
proof -
  assume c: "fs CREDENTIALS_PATH = Some ref_credentials"
  have p: "JSON_parse ref_lib ref_credentials
           = Inr (JObj [(''web'', JObj [(''client_id'', JStr ''id-1''), (''client_secret'', JStr ''s-1'')])])"
    by code_simp
  show ?thesis
    unfolding getOAuthClient_content [of fs ref_credentials ref_lib, OF c] p
    by (simp add: and_then_def ref_client_def)
qed

theorem getOAuthClient_failures_witness:
  "getOAuthClient ref_lib Map.empty = Inl (Error ''CREDENTIALS_MISSING'') \<and>
   getOAuthClient ref_lib [CREDENTIALS_PATH \<mapsto> ''{oops''] = Inl (SyntaxError ''Unexpected token in JSON'') \<and>
   getOAuthClient ref_lib [CREDENTIALS_PATH \<mapsto> ''{}''] = Inl (cannot_read ''undefined'' ''client_id'') \<and>
   getOAuthClient ref_lib [CREDENTIALS_PATH \<mapsto> ref_credentials] = Inr ref_client \<and>
   redirect_uri ref_client = redirectUri"
proof -
  have q: "JSON_parse ref_lib ''{oops'' = Inl (SyntaxError ''Unexpected token in JSON'')"
    by code_simp
  have p: "JSON_parse ref_lib ''{}'' = Inr (JObj [])"
    by code_simp
  have g: "get_prop (Some (JObj [])) ''web'' = Inr None" "get_prop (Some (JObj [])) ''installed'' = Inr None"
    by simp_all
  have ok: "getOAuthClient ref_lib [CREDENTIALS_PATH \<mapsto> ref_credentials] = Inr ref_client"
    by (rule ref_credentials_client) simp
  show ?thesis
    using getOAuthClient_failures [of Map.empty ref_lib]
      getOAuthClient_failures [of "[CREDENTIALS_PATH \<mapsto> ''{oops'']" ref_lib]
      getOAuthClient_failures [of "[CREDENTIALS_PATH \<mapsto> ''{}'']" ref_lib]
      getOAuthClient_failures [of "[CREDENTIALS_PATH \<mapsto> ref_credentials]" ref_lib]
      q p g ok
    by simp
qed

lemma carregarAuth_no_token:
  "fs TOKEN_PATH = None \<Longrightarrow> carregarAuth L fs = Inl (Error ''AUTH_REQUIRED'')"
  by (simp add: carregarAuth_def existsSync_def)

lemma carregarAuth_token:
  "fs TOKEN_PATH = Some t \<Longrightarrow>
   carregarAuth L fs =
     (case and_then (getOAuthClient L fs) (\<lambda>client.
           and_then (JSON_parse L t) (\<lambda>token. Inr (client\<lparr>credentials := Some token\<rparr>))) of
        Inr client \<Rightarrow> Inr client
      | Inl e \<Rightarrow> Inl (Error ''AUTH_REQUIRED''))"
  by (simp add: carregarAuth_def carregarAuth_try_def existsSync_def readFileSync_def and_then_def)

lemma carregarAuth_error:
  "carregarAuth L fs = Inl e \<Longrightarrow> e = Error ''AUTH_REQUIRED''"
  by (auto simp: carregarAuth_def split: if_splits sum.splits)

lemma api_agenda_catch_auth:
  "api_agenda_catch (Error ''AUTH_REQUIRED'') fs =
     (json_response 401 (JObj [(''error'', JStr ''AUTH_REQUIRED'')]), fs(TOKEN_PATH := None))"
  by (auto simp: api_agenda_catch_def existsSync_def unlinkSync_def)

lemma api_agenda_catch_cases:
  "api_agenda_catch e fs =
     (if message e = ''AUTH_REQUIRED'' \<or> str_includes (message e) ''invalid_grant''
      then (json_response 401 (JObj [(''error'', JStr ''AUTH_REQUIRED'')]), fs(TOKEN_PATH := None))
      else (json_response 500 (JObj [(''error'', JStr (''Erro ao buscar agenda: '' @ message e))]), fs))"
  by (auto simp: api_agenda_catch_def existsSync_def unlinkSync_def)

lemma api_agenda_unauthorized:
  "carregarAuth L fs = Inl e \<Longrightarrow>
   api_agenda L now fs =
     (json_response 401 (JObj [(''error'', JStr ''AUTH_REQUIRED'')]), fs(TOKEN_PATH := None))"
  by (frule carregarAuth_error) (simp add: api_agenda_def api_agenda_catch_auth)

text \<open>
  C5, as stated, fails: a readable token file is not enough for \<open>carregarAuth\<close> to return a
  client. With the token file \<^verbatim>\<open>{}\<close> and no credentials file it fails with \<^verbatim>\<open>AUTH_REQUIRED\<close>.
\<close>

theorem carregarAuth_needs_credentials:
  "JSON_parse ref_lib ''{}'' = Inr (JObj []) \<and>
   carregarAuth ref_lib [TOKEN_PATH \<mapsto> ''{}''] = Inl (Error ''AUTH_REQUIRED'')"
proof -
  have "CREDENTIALS_PATH \<noteq> TOKEN_PATH"
    by (simp add: CREDENTIALS_PATH_def TOKEN_PATH_def path_join_def)
  then have "getOAuthClient ref_lib [TOKEN_PATH \<mapsto> ''{}''] = Inl (Error ''CREDENTIALS_MISSING'')"
    by (simp add: getOAuthClient_missing)
  then have "carregarAuth ref_lib [TOKEN_PATH \<mapsto> ''{}''] = Inl (Error ''AUTH_REQUIRED'')"
    by (simp add: carregarAuth_token and_then_def)
  moreover have "JSON_parse ref_lib ''{}'' = Inr (JObj [])"
    by code_simp
  ultimately show ?thesis by simp
qed

text \<open>
  C5, amended. \<open>carregarAuth\<close> fails with \<^verbatim>\<open>AUTH_REQUIRED\<close> when no token file exists, and
  returns the client with the stored token attached when the token file parses and
  \<open>getOAuthClient\<close> yields a client. \<^verbatim>\<open>GET /api/agenda\<close> with no token file answers 401 with
  \<^verbatim>\<open>{error: "AUTH_REQUIRED"}\<close> and leaves the file system as it is; whenever \<open>carregarAuth\<close>
  fails the answer is that 401 and the token file is gone afterwards. A failure of
  \<open>listarEventos\<close> is answered with 500 and \<^verbatim>\<open>{error: "Erro ao buscar agenda: " + message}\<close>,
  except when its message is \<^verbatim>\<open>AUTH_REQUIRED\<close> or contains \<^verbatim>\<open>invalid_grant\<close>, which is answered
  with the 401 and the removal of the token file. The handler always answers: its result is a
  response, never an error.
\<close>

theorem carregarAuth_and_agenda:
  "(fs TOKEN_PATH = None \<longrightarrow>
      carregarAuth L fs = Inl (Error ''AUTH_REQUIRED'') \<and>
      api_agenda L now fs = (json_response 401 (JObj [(''error'', JStr ''AUTH_REQUIRED'')]), fs)) \<and>
   (\<forall>t token client. fs TOKEN_PATH = Some t \<and> JSON_parse L t = Inr token \<and>
        getOAuthClient L fs = Inr client
      \<longrightarrow> carregarAuth L fs = Inr (client\<lparr>credentials := Some token\<rparr>)) \<and>
   (\<forall>e. carregarAuth L fs = Inl e
      \<longrightarrow> api_agenda L now fs =
            (json_response 401 (JObj [(''error'', JStr ''AUTH_REQUIRED'')]), fs(TOKEN_PATH := None))) \<and>
   (\<forall>auth e fs1. carregarAuth L fs = Inr auth \<and> listarEventos L now auth fs = (Inl e, fs1)
      \<longrightarrow> api_agenda L now fs =
            (if message e = ''AUTH_REQUIRED'' \<or> str_includes (message e) ''invalid_grant''
             then (json_response 401 (JObj [(''error'', JStr ''AUTH_REQUIRED'')]), fs1(TOKEN_PATH := None))
             else (json_response 500
                     (JObj [(''error'', JStr (''Erro ao buscar agenda: '' @ message e))]), fs1)))"
proof (intro conjI allI impI)
  assume n: "fs TOKEN_PATH = None"
  then show "carregarAuth L fs = Inl (Error ''AUTH_REQUIRED'')"
    by (rule carregarAuth_no_token)
  then have "api_agenda L now fs =
      (json_response 401 (JObj [(''error'', JStr ''AUTH_REQUIRED'')]), fs(TOKEN_PATH := None))"
    by (rule api_agenda_unauthorized)
  moreover from n have "fs(TOKEN_PATH := None) = fs"
    by auto
  ultimately show "api_agenda L now fs = (json_response 401 (JObj [(''error'', JStr ''AUTH_REQUIRED'')]), fs)"
    by simp
next
  fix t token client
  assume "fs TOKEN_PATH = Some t \<and> JSON_parse L t = Inr token \<and> getOAuthClient L fs = Inr client"
  then show "carregarAuth L fs = Inr (client\<lparr>credentials := Some token\<rparr>)"
    by (simp add: carregarAuth_token and_then_def)
next
  fix e
  assume "carregarAuth L fs = Inl e"
  then show "api_agenda L now fs =
      (json_response 401 (JObj [(''error'', JStr ''AUTH_REQUIRED'')]), fs(TOKEN_PATH := None))"
    by (rule api_agenda_unauthorized)
next
  fix auth e fs1
  assume "carregarAuth L fs = Inr auth \<and> listarEventos L now auth fs = (Inl e, fs1)"
  then show "api_agenda L now fs =
            (if message e = ''AUTH_REQUIRED'' \<or> str_includes (message e) ''invalid_grant''
             then (json_response 401 (JObj [(''error'', JStr ''AUTH_REQUIRED'')]), fs1(TOKEN_PATH := None))
             else (json_response 500
                     (JObj [(''error'', JStr (''Erro ao buscar agenda: '' @ message e))]), fs1))"
    by (simp add: api_agenda_def api_agenda_catch_cases)
qed

lemma ref_settings_read:
  "fs SETTINGS_PATH = Some ref_settings \<Longrightarrow>
   getSettings ref_lib fs =
     (JObj [(''diasEscopo'', JNum 3), (''senhaAdmin'', JStr ''admin''), (''ocultarIgnorados'', JBool True)], fs)"
proof -
  assume f: "fs SETTINGS_PATH = Some ref_settings"
  have p: "JSON_parse ref_lib ref_settings =
      Inr (JObj [(''diasEscopo'', JNum 3), (''senhaAdmin'', JStr ''admin''), (''ocultarIgnorados'', JBool True)])"
    by code_simp
  have t: "trim ref_settings \<noteq> []"
    by code_simp
  from f t p show ?thesis
    by (rule getSettings_readable)
qed

theorem carregarAuth_and_agenda_witness:
  "api_agenda ref_lib 0 Map.empty = (json_response 401 (JObj [(''error'', JStr ''AUTH_REQUIRED'')]), Map.empty) \<and>
   carregarAuth ref_lib [CREDENTIALS_PATH \<mapsto> ref_credentials, TOKEN_PATH \<mapsto> ''{}'']
     = Inr (ref_client\<lparr>credentials := Some (JObj [])\<rparr>) \<and>
   api_agenda ref_lib 0 [CREDENTIALS_PATH \<mapsto> ref_credentials, TOKEN_PATH \<mapsto> ''{}'', SETTINGS_PATH \<mapsto> ''null'']
     = (json_response 500
          (JObj [(''error'', JStr (''Erro ao buscar agenda: '' @ message (cannot_read ''null'' ''diasEscopo'')))]),
        [CREDENTIALS_PATH \<mapsto> ref_credentials, TOKEN_PATH \<mapsto> ''{}'', SETTINGS_PATH \<mapsto> ''null''])"
proof -
  let ?fs2 = "[CREDENTIALS_PATH \<mapsto> ref_credentials, TOKEN_PATH \<mapsto> ''{}'']"
  let ?fs3 = "[CREDENTIALS_PATH \<mapsto> ref_credentials, TOKEN_PATH \<mapsto> ''{}'', SETTINGS_PATH \<mapsto> ''null'']"
  let ?auth = "ref_client\<lparr>credentials := Some (JObj [])\<rparr>"
  have ne: "CREDENTIALS_PATH \<noteq> TOKEN_PATH" "SETTINGS_PATH \<noteq> TOKEN_PATH" "SETTINGS_PATH \<noteq> CREDENTIALS_PATH"
    by (simp_all add: CREDENTIALS_PATH_def TOKEN_PATH_def SETTINGS_PATH_def path_join_def)
  have p: "JSON_parse ref_lib ''{}'' = Inr (JObj [])"
    by code_simp
  have c2: "getOAuthClient ref_lib ?fs2 = Inr ref_client"
    using ne by (intro ref_credentials_client) simp
  have c3: "getOAuthClient ref_lib ?fs3 = Inr ref_client"
    using ne by (intro ref_credentials_client) simp
  have a3: "carregarAuth ref_lib ?fs3 = Inr ?auth"
    using carregarAuth_and_agenda [of ?fs3 ref_lib 0] p c3 ne ne [symmetric] by simp
  have pn: "JSON_parse ref_lib ''null'' = Inr JNull"
    by code_simp
  have tn: "trim ''null'' \<noteq> []"
    by (simp add: trim_def is_space_def)
  have s3: "getSettings ref_lib ?fs3 = (JNull, ?fs3)"
    using tn pn by (intro getSettings_readable) simp_all
  have l3: "listarEventos ref_lib 0 ?auth ?fs3 = (Inl (cannot_read ''null'' ''diasEscopo''), ?fs3)"
    unfolding listarEventos_def s3 by (simp add: and_then_def)
  have m: "message (cannot_read ''null'' ''diasEscopo'') \<noteq> ''AUTH_REQUIRED''"
    by (simp add: cannot_read_def)
  have i: "\<not> str_includes (message (cannot_read ''null'' ''diasEscopo'')) ''invalid_grant''"
    by code_simp
  show ?thesis
    using carregarAuth_and_agenda [of Map.empty ref_lib 0]
      carregarAuth_and_agenda [of ?fs2 ref_lib 0]
      carregarAuth_and_agenda [of ?fs3 ref_lib 0] p c2 a3 l3 m i ne ne [symmetric]
    by simp
qed


text \<open>
  C10. In the web flow, when the token file exists and the credentials file is missing or does
  not parse, \<open>getOAuthClient\<close> fails inside the \<^verbatim>\<open>try\<close> block and \<open>carregarAuth\<close> fails with
  \<^verbatim>\<open>AUTH_REQUIRED\<close> instead of that error. \<^verbatim>\<open>GET /api/agenda\<close> then answers 401 with
  \<^verbatim>\<open>{error: "AUTH_REQUIRED"}\<close>, not 500, and the token file is deleted.
\<close>

theorem carregarAuth_masks_credentials_failure:
  assumes tok: "fs TOKEN_PATH = Some t"
      and cred: "fs CREDENTIALS_PATH = None \<or>
                 (\<exists>content e. fs CREDENTIALS_PATH = Some content \<and> JSON_parse L content = Inl e)"
  shows "(\<exists>e. getOAuthClient L fs = Inl e) \<and>
         carregarAuth L fs = Inl (Error ''AUTH_REQUIRED'') \<and>
         api_agenda L now fs =
           (json_response 401 (JObj [(''error'', JStr ''AUTH_REQUIRED'')]), fs(TOKEN_PATH := None)) \<and>
         status (fst (api_agenda L now fs)) \<noteq> 500 \<and>
         snd (api_agenda L now fs) TOKEN_PATH = None"
proof -
  from cred have g: "\<exists>e. getOAuthClient L fs = Inl e"
    by (auto simp: getOAuthClient_missing getOAuthClient_unparsable)
  with tok have c: "carregarAuth L fs = Inl (Error ''AUTH_REQUIRED'')"
    by (auto simp: carregarAuth_token and_then_def)
  from c have "api_agenda L now fs =
      (json_response 401 (JObj [(''error'', JStr ''AUTH_REQUIRED'')]), fs(TOKEN_PATH := None))"
    by (rule api_agenda_unauthorized)
  with g c show ?thesis
    by (simp add: json_response_def)
qed

theorem carregarAuth_masks_credentials_failure_witness:
  "api_agenda ref_lib 0 [TOKEN_PATH \<mapsto> ''{}''] =
     (json_response 401 (JObj [(''error'', JStr ''AUTH_REQUIRED'')]), Map.empty) \<and>
   JSON_parse ref_lib ''{oops'' = Inl (SyntaxError ''Unexpected token in JSON'') \<and>
   api_agenda ref_lib 0 [TOKEN_PATH \<mapsto> ''{}'', CREDENTIALS_PATH \<mapsto> ''{oops''] =
     (json_response 401 (JObj [(''error'', JStr ''AUTH_REQUIRED'')]), [CREDENTIALS_PATH \<mapsto> ''{oops''])"
proof -
  have ne: "CREDENTIALS_PATH \<noteq> TOKEN_PATH"
    by (simp add: CREDENTIALS_PATH_def TOKEN_PATH_def path_join_def)
  have q: "JSON_parse ref_lib ''{oops'' = Inl (SyntaxError ''Unexpected token in JSON'')"
    by code_simp
  have e1: "[TOKEN_PATH \<mapsto> ''{}''](TOKEN_PATH := None) = Map.empty"
    by simp
  have e2: "[TOKEN_PATH \<mapsto> ''{}'', CREDENTIALS_PATH \<mapsto> ''{oops''](TOKEN_PATH := None)
            = [CREDENTIALS_PATH \<mapsto> ''{oops'']"
    using ne by (auto simp: fun_eq_iff)
  show ?thesis
    using carregarAuth_masks_credentials_failure [of "[TOKEN_PATH \<mapsto> ''{}'']" "''{}''" ref_lib 0]
      carregarAuth_masks_credentials_failure
        [of "[TOKEN_PATH \<mapsto> ''{}'', CREDENTIALS_PATH \<mapsto> ''{oops'']" "''{}''" ref_lib 0]
      ne q e1 e2
    by auto
qed


section \<open>Event lister: properties\<close>



















section \<open>Upload: properties\<close>

lemma upload_credenciais_stored:
  "uploadFields \<lparr>senha = pw, files = [\<lparr>fieldname = ''credenciais'', data = d\<rparr>]\<rparr> fs
   = (None, fs(CREDENTIALS_PATH \<mapsto> d))"
  by (simp add: uploadFields_def upload_fields_def storage_filename_def storage_destination_def
      CREDENTIALS_PATH_def writeFileSync_def)

text \<open>
  C1 does not hold on the code. The stored password is \<^verbatim>\<open>admin\<close>, the request sends the
  password \<^verbatim>\<open>errada\<close> and a file in the field \<^verbatim>\<open>credenciais\<close>: the answer is 403, and the
  credentials file, which held \<^verbatim>\<open>ANTIGO\<close>, holds the uploaded \<^verbatim>\<open>NOVO\<close> afterwards. The
  middleware stores the files before the callback compares the passwords.
\<close>

theorem api_upload_wrong_password_overwrites:
  "api_upload ref_lib
     \<lparr>senha = Some ''errada'', files = [\<lparr>fieldname = ''credenciais'', data = ''NOVO''\<rparr>]\<rparr>
     [CREDENTIALS_PATH \<mapsto> ''ANTIGO'', SETTINGS_PATH \<mapsto> ref_settings]
   = (Inr (json_response 403 (JObj [(''success'', JBool False), (''message'', JStr SenhaIncorreta)])),
      [CREDENTIALS_PATH \<mapsto> ''NOVO'', SETTINGS_PATH \<mapsto> ref_settings]) \<and>
   get_prop (Some (fst (getSettings ref_lib [CREDENTIALS_PATH \<mapsto> ''ANTIGO'', SETTINGS_PATH \<mapsto> ref_settings])))
     ''senhaAdmin'' = Inr (Some (JStr ''admin''))"
proof -
  let ?fs = "[CREDENTIALS_PATH \<mapsto> ''ANTIGO'', SETTINGS_PATH \<mapsto> ref_settings]"
  let ?fs' = "[CREDENTIALS_PATH \<mapsto> ''NOVO'', SETTINGS_PATH \<mapsto> ref_settings]"
  have ne: "SETTINGS_PATH \<noteq> CREDENTIALS_PATH"
    by (simp add: CREDENTIALS_PATH_def SETTINGS_PATH_def path_join_def)
  have w: "?fs(CREDENTIALS_PATH \<mapsto> ''NOVO'') = ?fs'"
    using ne by (auto simp: fun_eq_iff)
  have s0: "getSettings ref_lib ?fs =
      (JObj [(''diasEscopo'', JNum 3), (''senhaAdmin'', JStr ''admin''), (''ocultarIgnorados'', JBool True)], ?fs)"
    by (rule ref_settings_read) simp
  have s1: "getSettings ref_lib ?fs' =
      (JObj [(''diasEscopo'', JNum 3), (''senhaAdmin'', JStr ''admin''), (''ocultarIgnorados'', JBool True)], ?fs')"
    by (rule ref_settings_read) simp
  have "api_upload ref_lib
     \<lparr>senha = Some ''errada'', files = [\<lparr>fieldname = ''credenciais'', data = ''NOVO''\<rparr>]\<rparr> ?fs
   = (Inr (json_response 403 (JObj [(''success'', JBool False), (''message'', JStr SenhaIncorreta)])), ?fs')"
    by (simp add: api_upload_def upload_credenciais_stored w s1 and_then_def)
  then show ?thesis
    by (simp add: s0)
qed

end
